theory Spec2Isabelle
  imports Main "HOL-Library.AList" "HOL-Library.Char_ord" "HOL-Library.List_Lexorder"
begin

section \<open>Python values used by the parsers\<close>

text \<open>
  Exceptions are values. Only subclasses of Python's \<open>Exception\<close> are modelled (what
  \<open>except Exception\<close> and a bare \<open>except\<close> both catch in the parsers); \<open>str(e)\<close>
  is the message. A call that may raise returns \<open>exn + 'a\<close>, with \<open>Inl\<close> the exception.
\<close>

datatype exn_class = ValueError | UnicodeDecodeError | OSError | OtherException

datatype exn = Exn (cls: exn_class) (msg: string)

text \<open>\<open>try: body except Exception as e: handler(e)\<close>\<close>

definition try_except :: "exn + 'a \<Rightarrow> (exn \<Rightarrow> exn + 'a) \<Rightarrow> exn + 'a" where
  "try_except body handler = (case body of Inl e \<Rightarrow> handler e | Inr v \<Rightarrow> Inr v)"

text \<open>A Python \<open>dict\<close> with string keys: an association list in insertion order.
  \<open>d[k] = v\<close> overwrites in place when the key is present and appends otherwise.\<close>

type_synonym 'v dict = "(string \<times> 'v) list"

definition dict_set :: "string \<Rightarrow> 'v \<Rightarrow> 'v dict \<Rightarrow> 'v dict" where
  "dict_set k v d = AList.update k v d"

text \<open>\<open>dict(pairs)\<close>, a dict comprehension and \<open>d.update(other)\<close>: the pairs are stored
  one after another.\<close>

definition dict_update :: "'v dict \<Rightarrow> (string \<times> 'v) list \<Rightarrow> 'v dict" where
  "dict_update d ps = fold (\<lambda>(k, v) d. dict_set k v d) ps d"

definition dict_of_pairs :: "(string \<times> 'v) list \<Rightarrow> 'v dict" where
  "dict_of_pairs ps = dict_update [] ps"

definition dict_get :: "'v dict \<Rightarrow> string \<Rightarrow> 'v \<Rightarrow> 'v" where
  "dict_get d k dflt = (case map_of d k of None \<Rightarrow> dflt | Some v \<Rightarrow> v)"

text \<open>Scalars that the libraries hand over as cell values (floating-point and date cells
  are left out), with Python's \<open>str\<close> and truth value.\<close>

datatype pyval = PNone | PStr string | PInt int | PBool bool

definition digit_char :: "nat \<Rightarrow> char" where
  "digit_char d = char_of (48 + d)"

fun show_nat :: "nat \<Rightarrow> string" where
  "show_nat n = (if n < 10 then [digit_char n] else show_nat (n div 10) @ [digit_char (n mod 10)])"

declare show_nat.simps [simp del]

definition show_int :: "int \<Rightarrow> string" where
  "show_int i = (if i < 0 then CHR ''-'' # show_nat (nat (- i)) else show_nat (nat i))"

fun py_str :: "pyval \<Rightarrow> string" where
  "py_str PNone = ''None''"
| "py_str (PStr s) = s"
| "py_str (PInt i) = show_int i"
| "py_str (PBool b) = (if b then ''True'' else ''False'')"

fun truthy :: "pyval \<Rightarrow> bool" where
  "truthy PNone = False"
| "truthy (PStr s) = (s \<noteq> [])"
| "truthy (PInt i) = (i \<noteq> 0)"
| "truthy (PBool b) = b"

subsection \<open>String methods\<close>

text \<open>A Python \<open>str\<close> is a list of characters, each standing for the code point of its
  number: the code points below U+0100, which are all that a \<open>latin-1\<close> decode gives.
  Texts with higher code points are outside the model.\<close>

definition newline :: char where
  "newline = CHR 0x0A"

text \<open>\<open>sep.join(xs)\<close>\<close>

fun str_join :: "string \<Rightarrow> string list \<Rightarrow> string" where
  "str_join sep [] = []"
| "str_join sep [x] = x"
| "str_join sep (x # y # ys) = x @ sep @ str_join sep (y # ys)"

text \<open>\<open>s.lower()\<close>: the upper-case letters below U+0100 are \<open>A\<close> to \<open>Z\<close> and U+00C0 to
  U+00DE without the multiplication sign U+00D7; each has its lower-case letter 32 places
  further. Other characters are kept.\<close>

definition lower_char :: "char \<Rightarrow> char" where
  "lower_char c =
     (let n = (of_char c :: nat)
      in if (65 \<le> n \<and> n \<le> 90) \<or> (192 \<le> n \<and> n \<le> 222 \<and> n \<noteq> 215) then char_of (n + 32) else c)"

definition lower :: "string \<Rightarrow> string" where
  "lower s = map lower_char s"

definition lstrip :: "char \<Rightarrow> string \<Rightarrow> string" where
  "lstrip ch s = dropWhile (\<lambda>c. c = ch) s"

text \<open>\<open>s.strip()\<close>: white space is removed at both ends. Below U+0100 the white space
  characters are the space, \<open>\t\<close> to \<open>\r\<close>, \<open>\x1c\<close> to \<open>\x1f\<close>, U+0085 and U+00A0.\<close>

definition is_space :: "char \<Rightarrow> bool" where
  "is_space c =
     (let n = (of_char c :: nat)
      in n = 32 \<or> (9 \<le> n \<and> n \<le> 13) \<or> (28 \<le> n \<and> n \<le> 31) \<or> n = 133 \<or> n = 160)"

definition strip :: "string \<Rightarrow> string" where
  "strip s = rev (dropWhile is_space (rev (dropWhile is_space s)))"

text \<open>\<open>s.splitlines()\<close>: lines end at \<open>\n\<close>, \<open>\r\<close>, \<open>\r\n\<close>, \<open>\v\<close>, \<open>\f\<close>, the
  separators \<open>\x1c\<close> to \<open>\x1e\<close> and the next-line character U+0085; the line ends are
  dropped, and no empty last line is produced.\<close>

definition is_linebreak :: "char \<Rightarrow> bool" where
  "is_linebreak c =
     (let n = (of_char c :: nat) in (10 \<le> n \<and> n \<le> 13) \<or> (28 \<le> n \<and> n \<le> 30) \<or> n = 133)"

fun splitlines_from :: "string \<Rightarrow> string \<Rightarrow> string list" where
  "splitlines_from cur [] = (if cur = [] then [] else [rev cur])"
| "splitlines_from cur [c] =
     (if is_linebreak c then [rev cur] else [rev (c # cur)])"
| "splitlines_from cur (c # d # cs) =
     (if c = CHR 0x0D \<and> d = CHR 0x0A then rev cur # splitlines_from [] cs
      else if is_linebreak c then rev cur # splitlines_from [] (d # cs)
      else splitlines_from (c # cur) (d # cs))"

definition splitlines :: "string \<Rightarrow> string list" where
  "splitlines s = splitlines_from [] s"

subsection \<open>pathlib\<close>

text \<open>\<open>Path(p).name\<close> for a POSIX path: the last component, where empty components and
  \<open>.\<close> components do not count. \<open>Path(p).suffix\<close>: the part of the name from its last dot
  on, when that dot is neither the first nor the last character of the name.\<close>

fun split_on :: "char \<Rightarrow> string \<Rightarrow> string \<Rightarrow> string list" where
  "split_on sep cur [] = [rev cur]"
| "split_on sep cur (c # cs) =
     (if c = sep then rev cur # split_on sep [] cs else split_on sep (c # cur) cs)"

definition path_name :: "string \<Rightarrow> string" where
  "path_name p =
     (case filter (\<lambda>c. c \<noteq> [] \<and> c \<noteq> ''.'') (split_on CHR ''/'' [] p) of
        [] \<Rightarrow> []
      | c # cs \<Rightarrow> last (c # cs))"

definition path_suffix :: "string \<Rightarrow> string" where
  "path_suffix p =
     (let name = path_name p;
          after = length (takeWhile (\<lambda>c. c \<noteq> CHR ''.'') (rev name));
          i = length name - 1 - after
      in if after < length name \<and> 0 < i \<and> i < length name - 1 then drop i name else [])"

section \<open>models.py\<close>

datatype DocumentType = PDF | WORD | EXCEL | CSV | TEXT | HTML | UNKNOWN

record Table =
  headers :: "string list"
  rows :: "string list list"
  num_rows :: nat
  num_columns :: nat

text \<open>\<open>Table()\<close>: every field at its default.\<close>

definition Table_default :: Table where
  "Table_default = \<lparr>headers = [], rows = [], num_rows = 0, num_columns = 0\<rparr>"

text \<open>The inner loop of \<open>Table.to_dict\<close>: one row against the headers.\<close>

definition row_to_dict :: "string list \<Rightarrow> string list \<Rightarrow> string dict" where
  "row_to_dict hs row =
     fold (\<lambda>(i, header) row_dict.
             dict_set header (if i < length row then row ! i else '''') row_dict)
          (enumerate 0 hs) []"

definition to_dict :: "Table \<Rightarrow> string dict list" where
  "to_dict t =
     (if headers t = [] \<or> rows t = [] then []
      else fold (\<lambda>row result. result @ [row_to_dict (headers t) row]) (rows t) [])"

text \<open>Metadata values: \<open>Dict[str, Any]\<close> holds strings, integers and lists of strings
  in the parsers.\<close>

datatype meta_value = MStr string | MInt int | MList "string list"

record ParsedDocument =
  file_path :: string
  document_type :: DocumentType
  doc_text :: string
  tables :: "Table list"
  metadata :: "meta_value dict"
  raw_content :: "string option"

record ParserConfig =
  extract_tables :: bool
  extract_images :: bool
  ocr_enabled :: bool
  max_file_size_mb :: int
  encoding :: string

definition ParserConfig_default :: ParserConfig where
  "ParserConfig_default =
     \<lparr>extract_tables = True, extract_images = False, ocr_enabled = False,
      max_file_size_mb = 50, encoding = ''utf-8''\<rparr>"

section \<open>The outside world: file system and libraries\<close>

text \<open>
  What the parsers read from outside is a parameter: the file system and the results of the
  library calls (Polars, openpyxl, pdfplumber, pypdf), each the value returned or the
  exception raised.
  \<^item> \<open>resolve\<close>: the absolute path that \<open>Path.resolve\<close> gives, or the exception it raises
    (a \<open>ValueError\<close> for a path with an embedded null byte);
  \<^item> \<open>stat\<close>: what the queries \<open>exists\<close>, \<open>is_file\<close> and \<open>stat\<close> of \<open>Path\<close> find: nothing at
    the path, a regular file with its size in bytes, or something else such as a directory;
    or the exception that they let through (an \<open>OSError\<close> for a name that is too long);
  \<^item> \<open>open_read path encoding\<close>: the decoded content or the exception of \<open>open\<close> and
    \<open>read\<close>.
\<close>

datatype fs_node = RegularFile nat | Directory

text \<open>A Polars \<open>DataFrame\<close> is columnar: named columns of values, in order. Polars keeps
  all columns at the same length.\<close>

type_synonym DataFrame = "(string \<times> pyval list) list"

definition df_columns :: "DataFrame \<Rightarrow> string list" where
  "df_columns df = map fst df"

definition df_width :: "DataFrame \<Rightarrow> nat" where
  "df_width df = length df"

definition df_height :: "DataFrame \<Rightarrow> nat" where
  "df_height df = (case df of [] \<Rightarrow> 0 | (name, vs) # cols \<Rightarrow> length vs)"

definition df_iter_rows :: "DataFrame \<Rightarrow> pyval list list" where
  "df_iter_rows df = map (\<lambda>i. map (\<lambda>(name, vs). vs ! i) df) [0..<df_height df]"

text \<open>A pdfplumber page: what \<open>extract_text()\<close> and \<open>extract_tables()\<close> give. The empty
  string stands for every text that the test \<open>if text:\<close> rejects.\<close>

record pdf_page =
  extract_text :: "exn + string"
  page_extract_tables :: "exn + pyval list list list"

text \<open>A pypdf reader: \<open>extract_text()\<close> of each page, and the document information
  dictionary if there is one.\<close>

record pdf_reader =
  reader_pages :: "(exn + string) list"
  reader_metadata :: "string dict option"

record world =
  resolve :: "string \<Rightarrow> exn + string"
  stat :: "string \<Rightarrow> exn + fs_node option"
  open_read :: "string \<Rightarrow> string \<Rightarrow> exn + string"
  read_csv :: "string \<Rightarrow> char \<Rightarrow> exn + DataFrame"
  read_excel :: "string \<Rightarrow> exn + DataFrame"
  load_workbook :: "string \<Rightarrow> exn + pyval list list"
  df_str :: "DataFrame \<Rightarrow> exn + string"
  pdfplumber_open :: "string \<Rightarrow> exn + pdf_page list"
  PdfReader :: "string \<Rightarrow> exn + pdf_reader"

section \<open>base\_parser.py\<close>

text \<open>A parser object: its two abstract methods, and the class attribute
  \<open>SUPPORTED_EXTENSIONS\<close> where the class has one.\<close>

record BaseParser =
  can_parse :: "string \<Rightarrow> bool"
  parse :: "string \<Rightarrow> exn + ParsedDocument"
  SUPPORTED_EXTENSIONS :: "string list option"

text \<open>\<open>Path(p).exists()\<close>\<close>

definition path_exists :: "world \<Rightarrow> string \<Rightarrow> exn + bool" where
  "path_exists w p = (case stat w p of Inl e \<Rightarrow> Inl e | Inr node \<Rightarrow> Inr (node \<noteq> None))"

text \<open>\<open>size_mb = st_size / (1024 * 1024)\<close> is compared with the limit; dividing by a power
  of two is exact, so the test is the same on the byte count. An exception of the file
  system queries leaves \<open>validate_file\<close>.\<close>

definition validate_file :: "world \<Rightarrow> ParserConfig \<Rightarrow> string \<Rightarrow> exn + bool" where
  "validate_file w cfg p =
     (case stat w p of
        Inl e \<Rightarrow> Inl e
      | Inr None \<Rightarrow> Inr False
      | Inr (Some Directory) \<Rightarrow> Inr False
      | Inr (Some (RegularFile size_bytes)) \<Rightarrow>
          Inr (\<not> (int size_bytes > max_file_size_mb cfg * (1024 * 1024))))"

definition get_file_extension :: "string \<Rightarrow> string" where
  "get_file_extension p = lstrip CHR ''.'' (lower (path_suffix p))"

definition create_parsed_document ::
  "string \<Rightarrow> DocumentType \<Rightarrow> string \<Rightarrow> Table list \<Rightarrow> meta_value dict \<Rightarrow> ParsedDocument" where
  "create_parsed_document p ty txt tbls meta =
     \<lparr>file_path = p, document_type = ty, doc_text = txt, tables = tbls, metadata = meta,
      raw_content = None\<rparr>"

section \<open>excel\_parser.py\<close>

text \<open>The attribute is a Python set; its elements are listed here in the order of the
  source, which no use of it depends on.\<close>

definition Excel_SUPPORTED_EXTENSIONS :: "string list" where
  "Excel_SUPPORTED_EXTENSIONS = [''xlsx'', ''xls'', ''csv'', ''tsv'']"

definition Excel_can_parse :: "string \<Rightarrow> bool" where
  "Excel_can_parse p = (get_file_extension p \<in> set Excel_SUPPORTED_EXTENSIONS)"

definition dataframe_to_table :: "DataFrame \<Rightarrow> Table" where
  "dataframe_to_table df =
     \<lparr>headers = df_columns df,
      rows = fold (\<lambda>row rows. rows @ [map py_str row]) (df_iter_rows df) [],
      num_rows = df_height df,
      num_columns = df_width df\<rparr>"

definition dataframe_to_text :: "world \<Rightarrow> DataFrame \<Rightarrow> exn + string" where
  "dataframe_to_text w df = df_str w df"

definition create_document_from_dataframe ::
  "world \<Rightarrow> string \<Rightarrow> DataFrame \<Rightarrow> DocumentType \<Rightarrow> meta_value dict \<Rightarrow> exn + ParsedDocument" where
  "create_document_from_dataframe w p df doc_type meta0 =
     (let table = dataframe_to_table df in
      case dataframe_to_text w df of
        Inl e \<Rightarrow> Inl e
      | Inr txt \<Rightarrow>
          let meta = dict_update meta0
                [(''rows'', MInt (int (df_height df))),
                 (''columns'', MInt (int (df_width df))),
                 (''column_names'', MList (df_columns df)),
                 (''shape'', MStr (show_nat (df_height df) @ '' x '' @ show_nat (df_width df)))]
          in Inr (create_parsed_document p doc_type txt [table] meta))"

definition parse_as_text :: "world \<Rightarrow> ParserConfig \<Rightarrow> string \<Rightarrow> DocumentType \<Rightarrow> exn + ParsedDocument" where
  "parse_as_text w cfg p doc_type =
     try_except
       (case open_read w p (encoding cfg) of
          Inl e \<Rightarrow> Inl e
        | Inr txt \<Rightarrow> Inr (create_parsed_document p doc_type txt [] []))
       (\<lambda>e. Inr (create_parsed_document p doc_type (''Error reading file: '' @ msg e) [] []))"

definition parse_csv :: "world \<Rightarrow> ParserConfig \<Rightarrow> string \<Rightarrow> exn + ParsedDocument" where
  "parse_csv w cfg p =
     try_except
       (case read_csv w p CHR '','' of
          Inl e \<Rightarrow> Inl e
        | Inr df \<Rightarrow> create_document_from_dataframe w p df CSV [])
       (\<lambda>e. parse_as_text w cfg p CSV)"

definition parse_tsv :: "world \<Rightarrow> ParserConfig \<Rightarrow> string \<Rightarrow> exn + ParsedDocument" where
  "parse_tsv w cfg p =
     try_except
       (case read_csv w p (CHR 0x09) of
          Inl e \<Rightarrow> Inl e
        | Inr df \<Rightarrow> create_document_from_dataframe w p df CSV [])
       (\<lambda>e. parse_as_text w cfg p CSV)"

text \<open>The fallback reader: the rows of the active sheet, every cell as a string; the
  first row gives the column names, and the frame is built from a dict comprehension over
  the enumerated headers.\<close>

definition fallback_dataframe :: "string list list \<Rightarrow> DataFrame" where
  "fallback_dataframe data =
     (let headers = hd data; rows = tl data in
      dict_of_pairs
        (map (\<lambda>(i, header). (header, map (\<lambda>row. PStr (if i < length row then row ! i else '''')) rows))
             (enumerate 0 headers)))"

definition parse_excel_fallback :: "world \<Rightarrow> string \<Rightarrow> exn + ParsedDocument" where
  "parse_excel_fallback w p =
     try_except
       (case load_workbook w p of
          Inl e \<Rightarrow> Inl e
        | Inr sheet_rows \<Rightarrow>
            let data = fold (\<lambda>row data.
                         data @ [map (\<lambda>cell. if cell \<noteq> PNone then py_str cell else '''') row])
                       sheet_rows []
            in if data = [] then Inr (create_parsed_document p EXCEL ''Empty spreadsheet'' [] [])
               else create_document_from_dataframe w p (fallback_dataframe data) EXCEL [])
       (\<lambda>e. Inr (create_parsed_document p EXCEL (''Error parsing Excel file: '' @ msg e) [] []))"

definition parse_excel :: "world \<Rightarrow> string \<Rightarrow> exn + ParsedDocument" where
  "parse_excel w p =
     try_except
       (case read_excel w p of
          Inl e \<Rightarrow> Inl e
        | Inr df \<Rightarrow>
            create_document_from_dataframe w p df EXCEL
              [(''sheet_name'', MStr ''Sheet1''), (''format'', MStr ''excel'')])
       (\<lambda>e. parse_excel_fallback w p)"

definition Excel_parse :: "world \<Rightarrow> ParserConfig \<Rightarrow> string \<Rightarrow> exn + ParsedDocument" where
  "Excel_parse w cfg p =
     (case validate_file w cfg p of
        Inl e \<Rightarrow> Inl e
      | Inr valid \<Rightarrow>
          if \<not> valid then Inl (Exn ValueError (''Invalid file: '' @ p))
          else let ext = get_file_extension p in
            try_except
              (if ext = ''csv'' then parse_csv w cfg p
               else if ext = ''tsv'' then parse_tsv w cfg p
               else parse_excel w p)
              (\<lambda>e. Inl e))"

definition ExcelParser :: "world \<Rightarrow> ParserConfig \<Rightarrow> BaseParser" where
  "ExcelParser w cfg =
     \<lparr>can_parse = Excel_can_parse, parse = Excel_parse w cfg,
      SUPPORTED_EXTENSIONS = Some Excel_SUPPORTED_EXTENSIONS\<rparr>"

section \<open>pdf\_parser.py\<close>

definition PDF_SUPPORTED_EXTENSIONS :: "string list" where
  "PDF_SUPPORTED_EXTENSIONS = [''pdf'']"

definition PDF_can_parse :: "string \<Rightarrow> bool" where
  "PDF_can_parse p = (get_file_extension p = ''pdf'')"

definition convert_table :: "pyval list list \<Rightarrow> Table" where
  "convert_table table_data =
     (if table_data = [] then Table_default
      else
        let headers = map (\<lambda>cell. if truthy cell then py_str cell else '''') (hd table_data);
            rows = fold (\<lambda>row_data rows.
                           rows @ [map (\<lambda>cell. if truthy cell then py_str cell else '''') row_data])
                        (tl table_data) []
        in \<lparr>headers = headers, rows = rows, num_rows = length rows, num_columns = length headers\<rparr>)"

definition page_marker :: "nat \<Rightarrow> string" where
  "page_marker page_num = newline # ''--- Page '' @ show_nat page_num @ '' ---'' @ [newline]"

text \<open>The page loop of \<open>_parse_with_pdfplumber\<close>, with its two accumulators; an exception
  of a page ends it.\<close>

fun pdfplumber_pages ::
  "ParserConfig \<Rightarrow> nat \<Rightarrow> pdf_page list \<Rightarrow> string list \<Rightarrow> Table list \<Rightarrow> exn + string list \<times> Table list" where
  "pdfplumber_pages cfg page_num [] all_text all_tables = Inr (all_text, all_tables)"
| "pdfplumber_pages cfg page_num (page # pages) all_text all_tables =
     (case extract_text page of
        Inl e \<Rightarrow> Inl e
      | Inr txt \<Rightarrow>
          let all_text = (if txt \<noteq> [] then all_text @ [page_marker page_num, txt] else all_text) in
          if extract_tables cfg then
            (case page_extract_tables page of
               Inl e \<Rightarrow> Inl e
             | Inr tbls \<Rightarrow>
                 pdfplumber_pages cfg (Suc page_num) pages all_text
                   (fold (\<lambda>table_data all_tables.
                            if table_data \<noteq> [] then all_tables @ [convert_table table_data]
                            else all_tables)
                         tbls all_tables))
          else pdfplumber_pages cfg (Suc page_num) pages all_text all_tables)"

definition parse_with_pdfplumber :: "world \<Rightarrow> ParserConfig \<Rightarrow> string \<Rightarrow> exn + ParsedDocument" where
  "parse_with_pdfplumber w cfg p =
     (case pdfplumber_open w p of
        Inl e \<Rightarrow> Inl e
      | Inr pages \<Rightarrow>
          let meta = dict_set ''pages'' (MInt (int (length pages))) [(''pages'', MInt 0)] in
          (case pdfplumber_pages cfg 1 pages [] [] of
             Inl e \<Rightarrow> Inl e
           | Inr (all_text, all_tables) \<Rightarrow>
               Inr (create_parsed_document p PDF (str_join [newline] all_text) all_tables meta)))"

fun pypdf_pages :: "nat \<Rightarrow> (exn + string) list \<Rightarrow> string list \<Rightarrow> exn + string list" where
  "pypdf_pages page_num [] all_text = Inr all_text"
| "pypdf_pages page_num (page # pages) all_text =
     (case page of
        Inl e \<Rightarrow> Inl e
      | Inr txt \<Rightarrow>
          pypdf_pages (Suc page_num) pages
            (if txt \<noteq> [] then all_text @ [page_marker page_num, txt] else all_text))"

definition pypdf_metadata :: "pdf_reader \<Rightarrow> meta_value dict" where
  "pypdf_metadata reader =
     (let meta0 = [(''pages'', MInt (int (length (reader_pages reader)))), (''method'', MStr ''pypdf'')]
      in case reader_metadata reader of
           None \<Rightarrow> meta0
         | Some info \<Rightarrow>
             if info = [] then meta0
             else dict_update meta0
                    [(''title'', MStr (dict_get info ''/Title'' [])),
                     (''author'', MStr (dict_get info ''/Author'' [])),
                     (''subject'', MStr (dict_get info ''/Subject'' []))])"

definition parse_with_pypdf :: "world \<Rightarrow> string \<Rightarrow> exn + ParsedDocument" where
  "parse_with_pypdf w p =
     (case PdfReader w p of
        Inl e \<Rightarrow> Inl e
      | Inr reader \<Rightarrow>
          (case pypdf_pages 1 (reader_pages reader) [] of
             Inl e \<Rightarrow> Inl e
           | Inr all_text \<Rightarrow>
               Inr (create_parsed_document p PDF (str_join [newline] all_text) []
                      (pypdf_metadata reader))))"

definition PDF_parse :: "world \<Rightarrow> ParserConfig \<Rightarrow> string \<Rightarrow> exn + ParsedDocument" where
  "PDF_parse w cfg p =
     (case validate_file w cfg p of
        Inl e \<Rightarrow> Inl e
      | Inr valid \<Rightarrow>
          if \<not> valid then Inl (Exn ValueError (''Invalid file: '' @ p))
          else try_except (parse_with_pdfplumber w cfg p)
                 (\<lambda>e. try_except (parse_with_pypdf w p) (\<lambda>e2. Inl e2)))"

definition PDFParser :: "world \<Rightarrow> ParserConfig \<Rightarrow> BaseParser" where
  "PDFParser w cfg =
     \<lparr>can_parse = PDF_can_parse, parse = PDF_parse w cfg,
      SUPPORTED_EXTENSIONS = Some PDF_SUPPORTED_EXTENSIONS\<rparr>"

section \<open>word\_parser.py\<close>

text \<open>A Word table as the library gives it: the text of each cell, row by row.\<close>

definition parse_word_table :: "string list list \<Rightarrow> Table" where
  "parse_word_table word_table =
     (let rows_data = fold (\<lambda>row rows_data.
                              rows_data @ [fold (\<lambda>cell row_data. row_data @ [strip cell]) row []])
                           word_table []
      in if rows_data = [] then Table_default
         else let headers = hd rows_data; rows = tl rows_data
              in \<lparr>headers = headers, rows = rows, num_rows = length rows,
                  num_columns = length headers\<rparr>)"

section \<open>text\_parser.py\<close>

definition Text_SUPPORTED_EXTENSIONS :: "string list" where
  "Text_SUPPORTED_EXTENSIONS = [''txt'', ''text'', ''md'', ''markdown'', ''log'']"

definition Text_can_parse :: "string \<Rightarrow> bool" where
  "Text_can_parse p = (get_file_extension p \<in> set Text_SUPPORTED_EXTENSIONS)"

definition text_document :: "string \<Rightarrow> string \<Rightarrow> string \<Rightarrow> ParsedDocument" where
  "text_document p enc txt =
     create_parsed_document p TEXT txt []
       [(''encoding'', MStr enc),
        (''lines'', MInt (int (length (splitlines txt)))),
        (''characters'', MInt (int (length txt)))]"

text \<open>The loop over the other encodings; its bare \<open>except\<close> swallows every exception.\<close>

fun Text_retry :: "world \<Rightarrow> string \<Rightarrow> string list \<Rightarrow> exn + ParsedDocument" where
  "Text_retry w p [] = Inl (Exn ValueError (''Could not decode text file: '' @ p))"
| "Text_retry w p (enc # encs) =
     (case open_read w p enc of
        Inr txt \<Rightarrow> Inr (text_document p enc txt)
      | Inl e \<Rightarrow> Text_retry w p encs)"

definition Text_parse :: "world \<Rightarrow> ParserConfig \<Rightarrow> string \<Rightarrow> exn + ParsedDocument" where
  "Text_parse w cfg p =
     (case validate_file w cfg p of
        Inl e \<Rightarrow> Inl e
      | Inr valid \<Rightarrow>
          if \<not> valid then Inl (Exn ValueError (''Invalid file: '' @ p))
          else (case open_read w p (encoding cfg) of
                  Inr txt \<Rightarrow> Inr (text_document p (encoding cfg) txt)
                | Inl e \<Rightarrow>
                    if cls e = UnicodeDecodeError
                    then Text_retry w p [''latin-1'', ''cp1252'', ''iso-8859-1'']
                    else Inl e))"

definition TextParser :: "world \<Rightarrow> ParserConfig \<Rightarrow> BaseParser" where
  "TextParser w cfg =
     \<lparr>can_parse = Text_can_parse, parse = Text_parse w cfg,
      SUPPORTED_EXTENSIONS = Some Text_SUPPORTED_EXTENSIONS\<rparr>"

section \<open>universal\_parser.py\<close>

record UniversalParser =
  config :: ParserConfig
  parsers :: "BaseParser list"

definition UniversalParser_init :: "world \<Rightarrow> ParserConfig \<Rightarrow> UniversalParser" where
  "UniversalParser_init w cfg = \<lparr>config = cfg, parsers = [PDFParser w cfg, ExcelParser w cfg]\<rparr>"

definition no_parser_message :: "string \<Rightarrow> string" where
  "no_parser_message p =
     ''No parser available for file type: '' @ path_suffix p @ [newline]
     @ ''Supported formats: PDF (.pdf), Excel (.xlsx, .xls), CSV (.csv)''"

text \<open>The loop of \<open>UniversalParser.parse\<close> over the registered parsers.\<close>

fun try_parsers :: "BaseParser list \<Rightarrow> string \<Rightarrow> exn + ParsedDocument" where
  "try_parsers [] p = Inl (Exn ValueError (no_parser_message p))"
| "try_parsers (parser # rest) p =
     (if can_parse parser p then
        (case parse parser p of
           Inr doc \<Rightarrow> Inr doc
         | Inl e \<Rightarrow> try_parsers rest p)
      else try_parsers rest p)"

definition UniversalParser_parse :: "world \<Rightarrow> UniversalParser \<Rightarrow> string \<Rightarrow> exn + ParsedDocument" where
  "UniversalParser_parse w self p0 =
     (case resolve w p0 of
        Inl e \<Rightarrow> Inl e
      | Inr p \<Rightarrow>
          (case path_exists w p of
             Inl e \<Rightarrow> Inl e
           | Inr found \<Rightarrow>
               if \<not> found then Inl (Exn ValueError (''File not found: '' @ p))
               else try_parsers (parsers self) p))"

text \<open>\<open>get_supported_formats\<close>: the extensions of the registered parsers that have the
  attribute, without duplicates and sorted.\<close>

definition get_supported_formats :: "UniversalParser \<Rightarrow> string list" where
  "get_supported_formats self =
     sort (remdups
       (fold (\<lambda>parser formats.
                case SUPPORTED_EXTENSIONS parser of
                  Some exts \<Rightarrow> formats @ exts
                | None \<Rightarrow> formats)
             (parsers self) []))"

definition detect_format :: "string \<Rightarrow> DocumentType" where
  "detect_format p =
     dict_get
       [(''pdf'', PDF), (''docx'', WORD), (''doc'', WORD), (''xlsx'', EXCEL), (''xls'', EXCEL),
        (''csv'', CSV), (''tsv'', CSV), (''txt'', TEXT), (''text'', TEXT), (''md'', TEXT),
        (''markdown'', TEXT)]
       (lstrip CHR ''.'' (lower (path_suffix p))) UNKNOWN"

definition error_document :: "string \<Rightarrow> exn \<Rightarrow> ParsedDocument" where
  "error_document p e =
     \<lparr>file_path = p, document_type = UNKNOWN, doc_text = ''Error: '' @ msg e, tables = [],
      metadata = [(''error'', MStr (msg e))], raw_content = None\<rparr>"

definition parse_multiple :: "world \<Rightarrow> UniversalParser \<Rightarrow> string list \<Rightarrow> ParsedDocument list" where
  "parse_multiple w self file_paths =
     fold (\<lambda>p results.
             case UniversalParser_parse w self p of
               Inr doc \<Rightarrow> results @ [doc]
             | Inl e \<Rightarrow> results @ [error_document p e])
          file_paths []"

section \<open>The specification's wording, for comparison with the code\<close>

text \<open>The keyed-row rendering: a row is padded with empty strings, or cut, to the width of
  the header list and then keyed by the headers in order.\<close>

definition pad_or_trim :: "nat \<Rightarrow> string list \<Rightarrow> string list" where
  "pad_or_trim n row = take n row @ replicate (n - length row) []"

definition keyed_row :: "string list \<Rightarrow> string list \<Rightarrow> string dict" where
  "keyed_row hs row = dict_of_pairs (zip hs (pad_or_trim (length hs) row))"

text \<open>A PDF page with text and no table, and the text of a document of such pages: for
  each page with text, in ascending page order, one marker followed by the page's text.\<close>

definition text_only_page :: "string \<Rightarrow> pdf_page" where
  "text_only_page txt = \<lparr>extract_text = Inr txt, page_extract_tables = Inr []\<rparr>"

definition page_sections :: "nat \<Rightarrow> string list \<Rightarrow> string list" where
  "page_sections first texts =
     concat (map (\<lambda>(page_num, txt). if txt = [] then [] else [page_marker page_num, txt])
                 (enumerate first texts))"

text \<open>An error message names an extension when the extension occurs in it.\<close>

fun occurs_in :: "string \<Rightarrow> string \<Rightarrow> bool" where
  "occurs_in sub [] = (sub = [])"
| "occurs_in sub (c # cs) = (take (length sub) (c # cs) = sub \<or> occurs_in sub cs)"

section \<open>Concrete inputs\<close>

text \<open>A world with a few files under \<open>/w\<close>. As in CPython, resolving a path with a null
  character raises a \<open>ValueError\<close>, and the queries on a name of more than 255 characters
  raise an \<open>OSError\<close>. The file \<open>i.log\<close> is not UTF-8 and is removed right after the
  first read.\<close>

definition nul_path :: string where
  "nul_path = [CHR ''a'', CHR 0x00, CHR ''.'', CHR ''c'', CHR ''s'', CHR ''v'']"

definition long_path :: string where
  "long_path = replicate 256 (CHR ''x'') @ ''.csv''"

definition demo_frame :: DataFrame where
  "demo_frame = [(''Seg'', [PStr ''ISA'', PStr ''GS'']), (''Max'', [PInt 1, PInt 12])]"

definition demo_world :: world where
  "demo_world =
     \<lparr>resolve = (\<lambda>p.
        if CHR 0x00 \<in> set p then Inl (Exn ValueError ''embedded null byte'')
        else if take 1 p = ''/'' then Inr p
        else Inr (''/w/'' @ p)),
      stat = (\<lambda>p.
        if 255 < length (path_name p) then Inl (Exn OSError ''[Errno 36] File name too long'')
        else Inr (map_of
          [(''/w/a.csv'', RegularFile 20), (''/w/b.pdf'', RegularFile 900),
           (''/w/c.docx'', RegularFile 64), (''/w/d.xlsx'', RegularFile 300),
           (''/w/e.txt'', RegularFile 5), (''/w/f.tsv'', RegularFile 3),
           (''/w/g.pdf'', RegularFile 7), (''/w/h.md'', RegularFile 2),
           (''/w/i.log'', RegularFile 4), (''/w'', Directory)] p)),
      open_read = (\<lambda>p enc.
        if p = ''/w/e.txt'' then
          (if enc = ''utf-8'' then Inl (Exn UnicodeDecodeError ''invalid continuation byte'')
           else Inr [CHR ''c'', CHR ''a'', CHR ''f'', CHR 0xE9, CHR 0x85, CHR ''o'', CHR ''k''])
        else if p = ''/w/f.tsv'' then Inr ''a;b''
        else if p = ''/w/h.md'' then Inr ''hi''
        else if p = ''/w/i.log'' then
          (if enc = ''utf-8'' then Inl (Exn UnicodeDecodeError ''invalid start byte'')
           else Inl (Exn OSError ''[Errno 2] No such file or directory''))
        else Inl (Exn OtherException ''Permission denied'')),
      read_csv = (\<lambda>p sep.
        if p = ''/w/a.csv'' \<and> sep = CHR '','' then Inr demo_frame
        else Inl (Exn OtherException ''could not parse'')),
      read_excel = (\<lambda>p. Inl (Exn OtherException ''not a workbook'')),
      load_workbook = (\<lambda>p. Inl (Exn OtherException ''File is not a zip file'')),
      df_str = (\<lambda>df. Inr ''shape: (2, 2)''),
      pdfplumber_open = (\<lambda>p.
        if p = ''/w/b.pdf''
        then Inr (map text_only_page [''Intro'', [], ''Segments''])
        else Inl (Exn OtherException ''No /Root object'')),
      PdfReader = (\<lambda>p. Inl (Exn OtherException ''EOF marker not found''))\<rparr>"

text \<open>A configuration that no file with content passes, and a dispatcher whose first
  parser carries it.\<close>

definition strict_config :: ParserConfig where
  "strict_config = ParserConfig_default\<lparr>max_file_size_mb := 0\<rparr>"

definition demo_dispatcher :: UniversalParser where
  "demo_dispatcher =
     \<lparr>config = ParserConfig_default,
      parsers = [ExcelParser demo_world strict_config,
                 PDFParser demo_world ParserConfig_default,
                 ExcelParser demo_world ParserConfig_default]\<rparr>"

section \<open>Auxiliary facts\<close>

lemma fold_append_map: "fold (\<lambda>x acc. acc @ [f x]) xs ys = ys @ map f xs"
  by (induction xs arbitrary: ys) auto

lemma pad_or_trim_nth:
  "i < n \<Longrightarrow> pad_or_trim n row ! i = (if i < length row then row ! i else [])"
  by (auto simp: pad_or_trim_def nth_append)

lemma length_pad_or_trim: "length (pad_or_trim n row) = n"
  by (simp add: pad_or_trim_def)

lemma fold_enumerate_zip:
  assumes "length vs = length hs"
    and "\<And>i. i < length hs \<Longrightarrow> vs ! i = g (k + i)"
  shows "fold (\<lambda>(i, h) d. dict_set h (g i) d) (enumerate k hs) d0
       = fold (\<lambda>(h, v) d. dict_set h v d) (zip hs vs) d0"
  using assms
proof (induction hs arbitrary: vs k d0)
  case Nil
  then show ?case by simp
next
  case (Cons h hs)
  then obtain v vs' where vs: "vs = v # vs'" by (cases vs) auto
  have v: "v = g k" using Cons.prems(2) [of 0] vs by simp
  have tl: "\<And>i. i < length hs \<Longrightarrow> vs' ! i = g (Suc k + i)"
    using Cons.prems(2) vs by fastforce
  have "length vs' = length hs" using Cons.prems(1) vs by simp
  from Cons.IH [OF this tl] show ?case
    by (simp add: vs v)
qed

lemma row_to_dict_keyed_row: "row_to_dict hs row = keyed_row hs row"
  unfolding row_to_dict_def keyed_row_def dict_of_pairs_def dict_update_def
  by (rule fold_enumerate_zip) (simp_all add: length_pad_or_trim pad_or_trim_nth)

lemma to_dict_map:
  "to_dict t = (if headers t = [] \<or> rows t = [] then [] else map (row_to_dict (headers t)) (rows t))"
  by (simp add: to_dict_def fold_append_map)

lemma dict_set_fresh: "k \<notin> fst ` set d \<Longrightarrow> dict_set k v d = d @ [(k, v)]"
  unfolding dict_set_def by (induction d) auto

lemma dict_update_distinct:
  "distinct (map fst ps) \<Longrightarrow> fst ` set ps \<inter> fst ` set d0 = {} \<Longrightarrow> dict_update d0 ps = d0 @ ps"
  unfolding dict_update_def
proof (induction ps arbitrary: d0)
  case Nil
  then show ?case by simp
next
  case (Cons p ps)
  obtain k v where p: "p = (k, v)" by (cases p)
  have nk: "k \<notin> fst ` set d0" using Cons.prems p by auto
  have "fst ` set ps \<inter> fst ` set (d0 @ [(k, v)]) = {}"
    using Cons.prems p by auto
  with Cons.IH [of "d0 @ [(k, v)]"] Cons.prems(1) show ?case
    by (simp add: p dict_set_fresh [OF nk])
qed

lemma dict_of_pairs_distinct: "distinct (map fst ps) \<Longrightarrow> dict_of_pairs ps = ps"
  unfolding dict_of_pairs_def using dict_update_distinct [of ps "[]"] by simp

lemma keyed_row_distinct:
  "distinct hs \<Longrightarrow> keyed_row hs row = zip hs (pad_or_trim (length hs) row)"
  unfolding keyed_row_def by (rule dict_of_pairs_distinct) (simp add: length_pad_or_trim)

section \<open>The keyed-row rendering of a table\<close>

text \<open>
  Claim C6, as amended. For every table whose header list is not empty, \<open>to_dict\<close> renders
  each row, in order, as the dict keyed by the headers: a row shorter than the header list
  has its missing trailing fields filled with the empty string, a longer row has its extra
  fields dropped. When the headers are pairwise distinct the dict is exactly the headers
  zipped, in order, with the padded or trimmed row.
\<close>

theorem to_dict_pads_and_trims:
  assumes "headers t \<noteq> []"
  shows "to_dict t = map (keyed_row (headers t)) (rows t)
       \<and> (distinct (headers t) \<longrightarrow>
            to_dict t = map (\<lambda>row. zip (headers t) (pad_or_trim (length (headers t)) row)) (rows t))"
proof -
  have "to_dict t = map (keyed_row (headers t)) (rows t)"
    using assms by (auto simp: to_dict_map row_to_dict_keyed_row)
  then show ?thesis
    by (simp add: keyed_row_distinct)
qed

theorem to_dict_pads_and_trims_witness:
  "to_dict \<lparr>headers = [''A'', ''B'', ''C''],
            rows = [[''x'', ''y''], [''x'', ''y'', ''z'', ''w'']],
            num_rows = 2, num_columns = 3\<rparr>
   = [[(''A'', ''x''), (''B'', ''y''), (''C'', [])],
      [(''A'', ''x''), (''B'', ''y''), (''C'', ''z'')]]"
  using to_dict_pads_and_trims
    [of "\<lparr>headers = [''A'', ''B'', ''C''],
          rows = [[''x'', ''y''], [''x'', ''y'', ''z'', ''w'']],
          num_rows = 2, num_columns = 3\<rparr>", THEN conjunct2]
  by (simp add: pad_or_trim_def)

text \<open>
  Claim C6 as stated speaks of every table. With an empty header list and a row present,
  the claimed rendering is one empty dict for the row; \<open>to_dict\<close> returns no dict at all.
\<close>

theorem to_dict_no_headers_counterexample:
  "to_dict \<lparr>headers = [], rows = [[''x'', ''y'']], num_rows = 1, num_columns = 0\<rparr>
   \<noteq> map (keyed_row []) [[''x'', ''y'']]"
  by (simp add: to_dict_def)

text \<open>
  Claim C10. A table whose header list is empty, or whose row list is empty, has the empty
  list as its keyed rendering; in particular rows without headers give no keyed rows.
\<close>

theorem to_dict_empty:
  assumes "headers t = [] \<or> rows t = []"
  shows "to_dict t = []"
  using assms by (auto simp: to_dict_def)

theorem to_dict_empty_witness:
  "to_dict \<lparr>headers = [], rows = [[''x''], [''y'', ''z'']], num_rows = 2, num_columns = 0\<rparr> = []
   \<and> to_dict \<lparr>headers = [''A''], rows = [], num_rows = 0, num_columns = 1\<rparr> = []"
  using to_dict_empty
    [of "\<lparr>headers = [], rows = [[''x''], [''y'', ''z'']], num_rows = 2, num_columns = 0\<rparr>"]
    to_dict_empty [of "\<lparr>headers = [''A''], rows = [], num_rows = 0, num_columns = 1\<rparr>"]
  by simp

section \<open>Tables built by the parsers\<close>

text \<open>
  Claim C7. The tables that the parsers construct (from a DataFrame, from the raw table
  data of a PDF page, from a Word table) have \<open>num_rows\<close> equal to the number of rows and
  \<open>num_columns\<close> equal to the number of headers.
\<close>

theorem table_counts_at_construction:
  "num_rows (dataframe_to_table df) = length (rows (dataframe_to_table df))
 \<and> num_columns (dataframe_to_table df) = length (headers (dataframe_to_table df))
 \<and> num_rows (convert_table table_data) = length (rows (convert_table table_data))
 \<and> num_columns (convert_table table_data) = length (headers (convert_table table_data))
 \<and> num_rows (parse_word_table word_table) = length (rows (parse_word_table word_table))
 \<and> num_columns (parse_word_table word_table) = length (headers (parse_word_table word_table))"
  by (simp add: dataframe_to_table_def convert_table_def parse_word_table_def fold_append_map
      df_iter_rows_def df_columns_def df_width_def Table_default_def Let_def)

section \<open>The dispatcher\<close>

lemma try_parsers_find:
  "try_parsers ps p =
     (case find (\<lambda>q. can_parse q p \<and> \<not> isl (parse q p)) ps of
        Some q \<Rightarrow> parse q p
      | None \<Rightarrow> Inl (Exn ValueError (no_parser_message p)))"
  by (induction ps) (auto split: sum.splits)

lemma get_file_extension_docx: "path_suffix p = ''.docx'' \<Longrightarrow> get_file_extension p = ''docx''"
  by (simp add: get_file_extension_def lower_def lower_char_def lstrip_def)

lemma UniversalParser_parse_find:
  "UniversalParser_parse w self p0 =
     (case resolve w p0 of
        Inl e \<Rightarrow> Inl e
      | Inr p \<Rightarrow>
          (case stat w p of
             Inl e \<Rightarrow> Inl e
           | Inr None \<Rightarrow> Inl (Exn ValueError (''File not found: '' @ p))
           | Inr (Some node) \<Rightarrow>
               (case find (\<lambda>q. can_parse q p \<and> \<not> isl (parse q p)) (parsers self) of
                  Some q \<Rightarrow> parse q p
                | None \<Rightarrow> Inl (Exn ValueError (no_parser_message p)))))"
  by (simp add: UniversalParser_parse_def path_exists_def try_parsers_find
      split: sum.splits option.splits)

text \<open>The parsers that \<open>__init__\<close> registers return documents of type PDF, EXCEL or CSV only
  (a \<open>.tsv\<close> file is parsed as CSV).\<close>

lemma Excel_parse_document_type:
  "Excel_parse w cfg p = Inr doc \<Longrightarrow> document_type doc = CSV \<or> document_type doc = EXCEL"
  by (auto simp: Excel_parse_def parse_csv_def parse_tsv_def parse_excel_def parse_excel_fallback_def
      parse_as_text_def create_document_from_dataframe_def dataframe_to_text_def
      try_except_def create_parsed_document_def Let_def split: if_splits sum.splits)

lemma PDF_parse_document_type: "PDF_parse w cfg p = Inr doc \<Longrightarrow> document_type doc = PDF"
  by (auto simp: PDF_parse_def parse_with_pdfplumber_def parse_with_pypdf_def
      try_except_def create_parsed_document_def Let_def split: if_splits sum.splits prod.splits)

text \<open>A directory exists, so it passes the existence test of the dispatcher; both registered
  parsers then refuse it, and the call fails in the parser loop.\<close>

lemma validate_file_directory: "stat w p = Inr (Some Directory) \<Longrightarrow> validate_file w cfg p = Inr False"
  by (simp add: validate_file_def)

lemma parse_directory:
  assumes "resolve w p0 = Inr p" and "stat w p = Inr (Some Directory)"
  shows "UniversalParser_parse w (UniversalParser_init w cfg) p0
           = Inl (Exn ValueError (no_parser_message p))"
  using assms validate_file_directory [OF assms(2), of cfg]
  by (simp add: UniversalParser_parse_def path_exists_def UniversalParser_init_def PDFParser_def
      ExcelParser_def PDF_parse_def Excel_parse_def)

text \<open>
  Claim C1, as amended. \<open>UniversalParser.parse\<close> first resolves the path and tests that it
  exists. For a path that passes, it goes through the registered parsers in registration
  order: the result is that of the first parser that matches the path and whose \<open>parse\<close>
  does not raise, so a matching parser that raises is passed over and the next matching
  one is tried. When every matching parser raises, or none matches, the call fails with
  the error that names the suffix of the file and a fixed list of formats, the same for
  every list of registered parsers. With the two parsers of \<open>__init__\<close> (PDF and Excel), an
  existing \<open>.docx\<close> path fails in this way.
\<close>

theorem parse_tries_parsers_in_order:
  "UniversalParser_parse w self p0 =
     (case resolve w p0 of
        Inl e \<Rightarrow> Inl e
      | Inr p \<Rightarrow>
          (case stat w p of
             Inl e \<Rightarrow> Inl e
           | Inr None \<Rightarrow> Inl (Exn ValueError (''File not found: '' @ p))
           | Inr (Some node) \<Rightarrow>
               (case find (\<lambda>q. can_parse q p \<and> \<not> isl (parse q p)) (parsers self) of
                  Some q \<Rightarrow> parse q p
                | None \<Rightarrow>
                    Inl (Exn ValueError
                      (''No parser available for file type: '' @ path_suffix p @ [newline]
                       @ ''Supported formats: PDF (.pdf), Excel (.xlsx, .xls), CSV (.csv)'')))))
   \<and> (\<forall>p node. resolve w p0 = Inr p \<and> stat w p = Inr (Some node) \<and> path_suffix p = ''.docx'' \<longrightarrow>
        UniversalParser_parse w (UniversalParser_init w cfg) p0 =
          Inl (Exn ValueError
            (''No parser available for file type: .docx'' @ [newline]
             @ ''Supported formats: PDF (.pdf), Excel (.xlsx, .xls), CSV (.csv)'')))"
proof -
  have msg: "no_parser_message p =
      ''No parser available for file type: '' @ path_suffix p @ [newline]
      @ ''Supported formats: PDF (.pdf), Excel (.xlsx, .xls), CSV (.csv)''" for p
    by (simp add: no_parser_message_def)
  have first: "UniversalParser_parse w self p0 =
     (case resolve w p0 of
        Inl e \<Rightarrow> Inl e
      | Inr p \<Rightarrow>
          (case stat w p of
             Inl e \<Rightarrow> Inl e
           | Inr None \<Rightarrow> Inl (Exn ValueError (''File not found: '' @ p))
           | Inr (Some node) \<Rightarrow>
               (case find (\<lambda>q. can_parse q p \<and> \<not> isl (parse q p)) (parsers self) of
                  Some q \<Rightarrow> parse q p
                | None \<Rightarrow>
                    Inl (Exn ValueError
                      (''No parser available for file type: '' @ path_suffix p @ [newline]
                       @ ''Supported formats: PDF (.pdf), Excel (.xlsx, .xls), CSV (.csv)'')))))"
    unfolding UniversalParser_parse_find [of w self] msg ..
  have docx: "UniversalParser_parse w (UniversalParser_init w cfg) p0 =
                Inl (Exn ValueError (no_parser_message p))"
    if "resolve w p0 = Inr p" "stat w p = Inr (Some node)" "path_suffix p = ''.docx''" for p node
    using get_file_extension_docx [OF that(3)] that(1, 2)
    by (simp add: UniversalParser_parse_find UniversalParser_init_def PDFParser_def ExcelParser_def
        PDF_can_parse_def Excel_can_parse_def Excel_SUPPORTED_EXTENSIONS_def)
  have second: "UniversalParser_parse w (UniversalParser_init w cfg) p0 =
          Inl (Exn ValueError
            (''No parser available for file type: .docx'' @ [newline]
             @ ''Supported formats: PDF (.pdf), Excel (.xlsx, .xls), CSV (.csv)''))"
    if "resolve w p0 = Inr p" "stat w p = Inr (Some node)" "path_suffix p = ''.docx''" for p node
    unfolding docx [OF that] msg that(3) by simp
  from first second show ?thesis by blast
qed

theorem parse_tries_parsers_in_order_witness:
  "UniversalParser_parse demo_world demo_dispatcher ''a.csv''
     = Excel_parse demo_world ParserConfig_default ''/w/a.csv''
   \<and> Excel_parse demo_world strict_config ''/w/a.csv'' = Inl (Exn ValueError ''Invalid file: /w/a.csv'')
   \<and> \<not> isl (Excel_parse demo_world ParserConfig_default ''/w/a.csv'')
   \<and> UniversalParser_parse demo_world (UniversalParser_init demo_world ParserConfig_default) ''g.pdf''
     = Inl (Exn ValueError
         (''No parser available for file type: .pdf'' @ [newline]
          @ ''Supported formats: PDF (.pdf), Excel (.xlsx, .xls), CSV (.csv)''))
   \<and> UniversalParser_parse demo_world (UniversalParser_init demo_world ParserConfig_default) ''c.docx''
     = Inl (Exn ValueError
         (''No parser available for file type: .docx'' @ [newline]
          @ ''Supported formats: PDF (.pdf), Excel (.xlsx, .xls), CSV (.csv)''))"
proof -
  have ra: "resolve demo_world ''a.csv'' = Inr ''/w/a.csv''"
    and rg: "resolve demo_world ''g.pdf'' = Inr ''/w/g.pdf''"
    and rc: "resolve demo_world ''c.docx'' = Inr ''/w/c.docx''"
    by code_simp+
  have sa: "stat demo_world ''/w/a.csv'' = Inr (Some (RegularFile 20))"
    and sg: "stat demo_world ''/w/g.pdf'' = Inr (Some (RegularFile 7))"
    and sc: "stat demo_world ''/w/c.docx'' = Inr (Some (RegularFile 64))"
    by code_simp+
  have strict: "Excel_parse demo_world strict_config ''/w/a.csv'' = Inl (Exn ValueError ''Invalid file: /w/a.csv'')"
    by code_simp
  have ok: "\<not> isl (Excel_parse demo_world ParserConfig_default ''/w/a.csv'')"
    by code_simp
  have ca: "Excel_can_parse ''/w/a.csv''" "\<not> PDF_can_parse ''/w/a.csv''"
    by code_simp+
  have cg: "\<not> Excel_can_parse ''/w/g.pdf''" "PDF_can_parse ''/w/g.pdf''"
    "isl (PDF_parse demo_world ParserConfig_default ''/w/g.pdf'')"
    "path_suffix ''/w/g.pdf'' = ''.pdf''"
    by code_simp+
  have cc: "path_suffix ''/w/c.docx'' = ''.docx''"
    by code_simp
  have 1: "UniversalParser_parse demo_world demo_dispatcher ''a.csv''
     = Excel_parse demo_world ParserConfig_default ''/w/a.csv''"
    using parse_tries_parsers_in_order
      [of demo_world demo_dispatcher "''a.csv''" ParserConfig_default, THEN conjunct1]
    by (simp add: ra sa demo_dispatcher_def ExcelParser_def PDFParser_def strict ok ca)
  have 2: "UniversalParser_parse demo_world (UniversalParser_init demo_world ParserConfig_default) ''g.pdf''
     = Inl (Exn ValueError
         (''No parser available for file type: .pdf'' @ [newline]
          @ ''Supported formats: PDF (.pdf), Excel (.xlsx, .xls), CSV (.csv)''))"
    using parse_tries_parsers_in_order
      [of demo_world "UniversalParser_init demo_world ParserConfig_default" "''g.pdf''"
        ParserConfig_default, THEN conjunct1]
    by (simp add: rg sg UniversalParser_init_def ExcelParser_def PDFParser_def cg)
  have 3: "UniversalParser_parse demo_world (UniversalParser_init demo_world ParserConfig_default) ''c.docx''
     = Inl (Exn ValueError
         (''No parser available for file type: .docx'' @ [newline]
          @ ''Supported formats: PDF (.pdf), Excel (.xlsx, .xls), CSV (.csv)''))"
    using parse_tries_parsers_in_order
      [of demo_world demo_dispatcher "''c.docx''" ParserConfig_default, THEN conjunct2] rc sc cc
    by blast
  from 1 2 3 strict ok show ?thesis by blast
qed

text \<open>
  Claim C1 as stated has the error name the set of formats that the dispatcher supports.
  The dispatcher of \<open>__init__\<close> supports the extension \<open>tsv\<close> (\<open>get_supported_formats\<close>
  lists it, and a \<open>.tsv\<close> file is parsed), and the error that an unsupported \<open>.docx\<close> file
  gets does not name it.
\<close>

theorem unsupported_message_omits_tsv_counterexample:
  "''tsv'' \<in> set (get_supported_formats (UniversalParser_init demo_world ParserConfig_default))
   \<and> \<not> isl (UniversalParser_parse demo_world (UniversalParser_init demo_world ParserConfig_default) ''f.tsv'')
   \<and> UniversalParser_parse demo_world (UniversalParser_init demo_world ParserConfig_default) ''c.docx''
       = Inl (Exn ValueError (no_parser_message ''/w/c.docx''))
   \<and> \<not> occurs_in ''tsv'' (no_parser_message ''/w/c.docx'')"
  by code_simp

text \<open>
  Claim C3, as amended. When the path resolves and the existence test finds nothing at the
  resolved path, \<open>UniversalParser.parse\<close> fails with the not-found error that names the
  resolved, absolute path. When \<open>resolve\<close> or the existence test itself raises, that
  exception is the outcome. In all three cases this holds whatever parsers are
  registered: none of them is consulted, and no document is returned.
\<close>

theorem parse_missing_path:
  "(\<forall>p. resolve w p0 = Inr p \<and> stat w p = Inr None \<longrightarrow>
        UniversalParser_parse w self p0 = Inl (Exn ValueError (''File not found: '' @ p)))
   \<and> (\<forall>e. resolve w p0 = Inl e \<longrightarrow> UniversalParser_parse w self p0 = Inl e)
   \<and> (\<forall>p e. resolve w p0 = Inr p \<and> stat w p = Inl e \<longrightarrow> UniversalParser_parse w self p0 = Inl e)"
  by (simp add: UniversalParser_parse_def path_exists_def)

theorem parse_missing_path_witness:
  "UniversalParser_parse demo_world demo_dispatcher ''zz.csv''
     = Inl (Exn ValueError ''File not found: /w/zz.csv'')
   \<and> UniversalParser_parse demo_world demo_dispatcher nul_path
     = Inl (Exn ValueError ''embedded null byte'')
   \<and> UniversalParser_parse demo_world demo_dispatcher long_path
     = Inl (Exn OSError ''[Errno 36] File name too long'')"
proof -
  have rz: "resolve demo_world ''zz.csv'' = Inr ''/w/zz.csv''"
    and sz: "stat demo_world ''/w/zz.csv'' = Inr None"
    by code_simp+
  have rn: "resolve demo_world nul_path = Inl (Exn ValueError ''embedded null byte'')"
    by code_simp
  have rl: "resolve demo_world long_path = Inr (''/w/'' @ long_path)"
    and sl: "stat demo_world (''/w/'' @ long_path) = Inl (Exn OSError ''[Errno 36] File name too long'')"
    by code_simp+
  have 1: "UniversalParser_parse demo_world demo_dispatcher ''zz.csv''
     = Inl (Exn ValueError ''File not found: /w/zz.csv'')"
    using parse_missing_path [of demo_world "''zz.csv''" demo_dispatcher, THEN conjunct1] rz sz
    by simp
  have 2: "UniversalParser_parse demo_world demo_dispatcher nul_path
     = Inl (Exn ValueError ''embedded null byte'')"
    using parse_missing_path [of demo_world nul_path demo_dispatcher, THEN conjunct2, THEN conjunct1] rn
    by simp
  have 3: "UniversalParser_parse demo_world demo_dispatcher long_path
     = Inl (Exn OSError ''[Errno 36] File name too long'')"
    using parse_missing_path [of demo_world long_path demo_dispatcher, THEN conjunct2, THEN conjunct2]
      rl sl
    by simp
  from 1 2 3 show ?thesis by blast
qed

text \<open>
  Claim C3 as stated promises the not-found error for every path that does not denote an
  existing file. Nothing exists at a path with a null character, and the call fails with
  the \<open>ValueError\<close> of \<open>resolve\<close>, whose message is not the not-found message.
\<close>

theorem parse_null_byte_counterexample:
  "stat demo_world nul_path = Inr None
   \<and> UniversalParser_parse demo_world demo_dispatcher nul_path
       = Inl (Exn ValueError ''embedded null byte'')
   \<and> \<not> occurs_in ''File not found'' ''embedded null byte''"
  by code_simp

section \<open>Batch parsing\<close>

lemma parse_multiple_map:
  "parse_multiple w self ps =
     map (\<lambda>p. case UniversalParser_parse w self p of Inr doc \<Rightarrow> doc | Inl e \<Rightarrow> error_document p e) ps"
proof -
  have "(\<lambda>p results. case UniversalParser_parse w self p of
                         Inr doc \<Rightarrow> results @ [doc]
                       | Inl e \<Rightarrow> results @ [error_document p e])
      = (\<lambda>p results. results @ [case UniversalParser_parse w self p of
                                   Inr doc \<Rightarrow> doc
                                 | Inl e \<Rightarrow> error_document p e])"
    by (auto simp: fun_eq_iff split: sum.splits)
  then show ?thesis
    by (simp add: parse_multiple_def fold_append_map)
qed

text \<open>
  Claim C2. \<open>parse_multiple\<close> returns one document per input path, in input order. At a
  path where \<open>parse\<close> returns a document, the entry is that document; at a path where
  \<open>parse\<close> raises, the batch goes on and the entry is the sentinel document: the input
  path, type UNKNOWN, the text \<open>Error: \<close> followed by the message, and the message under
  the metadata key \<open>error\<close>.
\<close>

theorem parse_multiple_one_per_path:
  "length (parse_multiple w self ps) = length ps
  \<and> (\<forall>i<length ps.
        (case UniversalParser_parse w self (ps ! i) of
           Inr doc \<Rightarrow> parse_multiple w self ps ! i = doc
         | Inl e \<Rightarrow> parse_multiple w self ps ! i =
             \<lparr>file_path = ps ! i, document_type = UNKNOWN, doc_text = ''Error: '' @ msg e,
              tables = [], metadata = [(''error'', MStr (msg e))], raw_content = None\<rparr>))"
  by (simp add: parse_multiple_map error_document_def split: sum.splits)

theorem parse_multiple_one_per_path_witness:
  "length (parse_multiple demo_world demo_dispatcher [''f.tsv'', ''zz.csv'', ''d.xlsx'']) = 3
   \<and> parse_multiple demo_world demo_dispatcher [''f.tsv'', ''zz.csv'', ''d.xlsx''] ! 0
       = \<lparr>file_path = ''/w/f.tsv'', document_type = CSV, doc_text = ''a;b'', tables = [],
          metadata = [], raw_content = None\<rparr>
   \<and> parse_multiple demo_world demo_dispatcher [''f.tsv'', ''zz.csv'', ''d.xlsx''] ! 1
       = \<lparr>file_path = ''zz.csv'', document_type = UNKNOWN,
          doc_text = ''Error: File not found: /w/zz.csv'', tables = [],
          metadata = [(''error'', MStr ''File not found: /w/zz.csv'')], raw_content = None\<rparr>
   \<and> parse_multiple demo_world demo_dispatcher [''f.tsv'', ''zz.csv'', ''d.xlsx''] ! 2
       = \<lparr>file_path = ''/w/d.xlsx'', document_type = EXCEL,
          doc_text = ''Error parsing Excel file: File is not a zip file'', tables = [],
          metadata = [], raw_content = None\<rparr>"
proof -
  let ?ps = "[''f.tsv'', ''zz.csv'', ''d.xlsx'']"
  have p0: "UniversalParser_parse demo_world demo_dispatcher (?ps ! 0)
      = Inr \<lparr>file_path = ''/w/f.tsv'', document_type = CSV, doc_text = ''a;b'', tables = [],
          metadata = [], raw_content = None\<rparr>"
    by code_simp
  have p1: "UniversalParser_parse demo_world demo_dispatcher (?ps ! 1)
      = Inl (Exn ValueError ''File not found: /w/zz.csv'')"
    by code_simp
  have p2: "UniversalParser_parse demo_world demo_dispatcher (?ps ! 2)
      = Inr \<lparr>file_path = ''/w/d.xlsx'', document_type = EXCEL,
          doc_text = ''Error parsing Excel file: File is not a zip file'', tables = [],
          metadata = [], raw_content = None\<rparr>"
    by code_simp
  note all = parse_multiple_one_per_path [of demo_world demo_dispatcher ?ps]
  from all have len: "length (parse_multiple demo_world demo_dispatcher ?ps) = 3"
    by simp
  from all have a0: "case UniversalParser_parse demo_world demo_dispatcher (?ps ! 0) of
           Inr doc \<Rightarrow> parse_multiple demo_world demo_dispatcher ?ps ! 0 = doc
         | Inl e \<Rightarrow> parse_multiple demo_world demo_dispatcher ?ps ! 0 =
             \<lparr>file_path = ?ps ! 0, document_type = UNKNOWN, doc_text = ''Error: '' @ msg e,
              tables = [], metadata = [(''error'', MStr (msg e))], raw_content = None\<rparr>"
    by (elim conjE allE [of _ 0]) simp
  from all have a1: "case UniversalParser_parse demo_world demo_dispatcher (?ps ! 1) of
           Inr doc \<Rightarrow> parse_multiple demo_world demo_dispatcher ?ps ! 1 = doc
         | Inl e \<Rightarrow> parse_multiple demo_world demo_dispatcher ?ps ! 1 =
             \<lparr>file_path = ?ps ! 1, document_type = UNKNOWN, doc_text = ''Error: '' @ msg e,
              tables = [], metadata = [(''error'', MStr (msg e))], raw_content = None\<rparr>"
    by (elim conjE allE [of _ 1]) simp
  from all have a2: "case UniversalParser_parse demo_world demo_dispatcher (?ps ! 2) of
           Inr doc \<Rightarrow> parse_multiple demo_world demo_dispatcher ?ps ! 2 = doc
         | Inl e \<Rightarrow> parse_multiple demo_world demo_dispatcher ?ps ! 2 =
             \<lparr>file_path = ?ps ! 2, document_type = UNKNOWN, doc_text = ''Error: '' @ msg e,
              tables = [], metadata = [(''error'', MStr (msg e))], raw_content = None\<rparr>"
    by (elim conjE allE [of _ 2]) simp
  from a0 have r0: "parse_multiple demo_world demo_dispatcher ?ps ! 0
       = \<lparr>file_path = ''/w/f.tsv'', document_type = CSV, doc_text = ''a;b'', tables = [],
          metadata = [], raw_content = None\<rparr>"
    unfolding p0 by simp
  from a1 have r1: "parse_multiple demo_world demo_dispatcher ?ps ! 1
       = \<lparr>file_path = ''zz.csv'', document_type = UNKNOWN,
          doc_text = ''Error: File not found: /w/zz.csv'', tables = [],
          metadata = [(''error'', MStr ''File not found: /w/zz.csv'')], raw_content = None\<rparr>"
    unfolding p1 by simp
  from a2 have r2: "parse_multiple demo_world demo_dispatcher ?ps ! 2
       = \<lparr>file_path = ''/w/d.xlsx'', document_type = EXCEL,
          doc_text = ''Error parsing Excel file: File is not a zip file'', tables = [],
          metadata = [], raw_content = None\<rparr>"
    unfolding p2 by simp
  from len r0 r1 r2 show ?thesis by blast
qed

section \<open>The tabular parser never raises on a valid file\<close>

lemma parse_as_text_returns:
  "parse_as_text w cfg p ty =
     Inr (create_parsed_document p ty
            (case open_read w p (encoding cfg) of
               Inr txt \<Rightarrow> txt
             | Inl e \<Rightarrow> ''Error reading file: '' @ msg e) [] [])"
  by (simp add: parse_as_text_def try_except_def split: sum.splits)

lemma parse_csv_returns: "\<exists>doc. parse_csv w cfg p = Inr doc"
  by (auto simp: parse_csv_def try_except_def parse_as_text_returns split: sum.splits)

lemma parse_tsv_returns: "\<exists>doc. parse_tsv w cfg p = Inr doc"
  by (auto simp: parse_tsv_def try_except_def parse_as_text_returns split: sum.splits)

lemma parse_excel_fallback_returns: "\<exists>doc. parse_excel_fallback w p = Inr doc"
  by (auto simp: parse_excel_fallback_def try_except_def Let_def split: sum.splits)

lemma parse_excel_returns: "\<exists>doc. parse_excel w p = Inr doc"
  using parse_excel_fallback_returns [of w p]
  by (auto simp: parse_excel_def try_except_def split: sum.splits)

lemma Excel_parse_returns:
  assumes "validate_file w cfg p = Inr True"
  shows "\<exists>doc. Excel_parse w cfg p = Inr doc"
  using assms parse_csv_returns [of w cfg p] parse_tsv_returns [of w cfg p] parse_excel_returns [of w p]
  by (auto simp: Excel_parse_def try_except_def Let_def)

text \<open>
  Claim C4. On a path that passes \<open>validate_file\<close>, \<open>ExcelParser.parse\<close> returns a document
  and does not raise, whatever the libraries and the file system do. When the primary read
  of a csv or tsv file raises, the result is the raw-text document of the file, or, when
  that read raises too, a document whose text is \<open>Error reading file: \<close> and the message.
  When the primary read of any other (xlsx, xls) file raises and the openpyxl fallback
  raises as well, the result is a document whose text is \<open>Error parsing Excel file: \<close> and
  the message.
\<close>

theorem excel_parse_always_returns:
  assumes "validate_file w cfg p = Inr True"
  shows "(\<exists>doc. Excel_parse w cfg p = Inr doc)
    \<and> (\<forall>e0. get_file_extension p = ''csv'' \<and> read_csv w p CHR '','' = Inl e0 \<longrightarrow>
          Excel_parse w cfg p =
            Inr (create_parsed_document p CSV
                  (case open_read w p (encoding cfg) of
                     Inr txt \<Rightarrow> txt
                   | Inl e \<Rightarrow> ''Error reading file: '' @ msg e) [] []))
    \<and> (\<forall>e0. get_file_extension p = ''tsv'' \<and> read_csv w p (CHR 0x09) = Inl e0 \<longrightarrow>
          Excel_parse w cfg p =
            Inr (create_parsed_document p CSV
                  (case open_read w p (encoding cfg) of
                     Inr txt \<Rightarrow> txt
                   | Inl e \<Rightarrow> ''Error reading file: '' @ msg e) [] []))
    \<and> (\<forall>e0 e. get_file_extension p \<noteq> ''csv'' \<and> get_file_extension p \<noteq> ''tsv''
          \<and> read_excel w p = Inl e0 \<and> load_workbook w p = Inl e \<longrightarrow>
          Excel_parse w cfg p =
            Inr (create_parsed_document p EXCEL (''Error parsing Excel file: '' @ msg e) [] []))"
proof -
  have a: "\<exists>doc. Excel_parse w cfg p = Inr doc"
    by (rule Excel_parse_returns [OF assms])
  have b: "Excel_parse w cfg p = Inr (create_parsed_document p CSV
                  (case open_read w p (encoding cfg) of
                     Inr txt \<Rightarrow> txt
                   | Inl e \<Rightarrow> ''Error reading file: '' @ msg e) [] [])"
    if "get_file_extension p = ''csv''" "read_csv w p CHR '','' = Inl e0" for e0
    using that assms by (simp add: Excel_parse_def parse_csv_def try_except_def parse_as_text_returns)
  have c: "Excel_parse w cfg p = Inr (create_parsed_document p CSV
                  (case open_read w p (encoding cfg) of
                     Inr txt \<Rightarrow> txt
                   | Inl e \<Rightarrow> ''Error reading file: '' @ msg e) [] [])"
    if "get_file_extension p = ''tsv''" "read_csv w p (CHR 0x09) = Inl e0" for e0
    using that assms by (simp add: Excel_parse_def parse_tsv_def try_except_def parse_as_text_returns)
  have d: "Excel_parse w cfg p =
            Inr (create_parsed_document p EXCEL (''Error parsing Excel file: '' @ msg e) [] [])"
    if "get_file_extension p \<noteq> ''csv''" "get_file_extension p \<noteq> ''tsv''"
       "read_excel w p = Inl e0" "load_workbook w p = Inl e" for e0 e
    using that assms
    by (simp add: Excel_parse_def parse_excel_def parse_excel_fallback_def try_except_def)
  from a b c d show ?thesis by blast
qed

theorem excel_parse_always_returns_witness:
  "Excel_parse demo_world ParserConfig_default ''/w/f.tsv'' =
     Inr \<lparr>file_path = ''/w/f.tsv'', document_type = CSV, doc_text = ''a;b'', tables = [],
          metadata = [], raw_content = None\<rparr>
   \<and> Excel_parse demo_world ParserConfig_default ''/w/d.xlsx'' =
     Inr \<lparr>file_path = ''/w/d.xlsx'', document_type = EXCEL,
          doc_text = ''Error parsing Excel file: File is not a zip file'', tables = [],
          metadata = [], raw_content = None\<rparr>"
proof -
  have vf: "validate_file demo_world ParserConfig_default ''/w/f.tsv'' = Inr True"
    and vd: "validate_file demo_world ParserConfig_default ''/w/d.xlsx'' = Inr True"
    by code_simp+
  have ef: "get_file_extension ''/w/f.tsv'' = ''tsv''"
    and ed: "get_file_extension ''/w/d.xlsx'' \<noteq> ''csv''" "get_file_extension ''/w/d.xlsx'' \<noteq> ''tsv''"
    by code_simp+
  have rf: "read_csv demo_world ''/w/f.tsv'' (CHR 0x09) = Inl (Exn OtherException ''could not parse'')"
    and opn: "open_read demo_world ''/w/f.tsv'' (encoding ParserConfig_default) = Inr ''a;b''"
    and rd: "read_excel demo_world ''/w/d.xlsx'' = Inl (Exn OtherException ''not a workbook'')"
    and ld: "load_workbook demo_world ''/w/d.xlsx'' = Inl (Exn OtherException ''File is not a zip file'')"
    by code_simp+
  have 1: "Excel_parse demo_world ParserConfig_default ''/w/f.tsv'' =
     Inr \<lparr>file_path = ''/w/f.tsv'', document_type = CSV, doc_text = ''a;b'', tables = [],
          metadata = [], raw_content = None\<rparr>"
    using excel_parse_always_returns [OF vf, THEN conjunct2, THEN conjunct2, THEN conjunct1] ef rf opn
    by (simp add: create_parsed_document_def)
  have 2: "Excel_parse demo_world ParserConfig_default ''/w/d.xlsx'' =
     Inr \<lparr>file_path = ''/w/d.xlsx'', document_type = EXCEL,
          doc_text = ''Error parsing Excel file: File is not a zip file'', tables = [],
          metadata = [], raw_content = None\<rparr>"
    using excel_parse_always_returns [OF vd, THEN conjunct2, THEN conjunct2, THEN conjunct2] ed rd ld
    by (simp add: create_parsed_document_def)
  from 1 2 show ?thesis by blast
qed

section \<open>The PDF parser\<close>

text \<open>
  Claim C5. On a valid path, when the pdfplumber method raises, the pypdf method is run
  and its outcome is the outcome of \<open>PDFParser.parse\<close>; in particular, when pypdf raises
  too, its exception reaches the caller and no document is returned.
\<close>

theorem pdf_parse_fallback_then_propagate:
  assumes "validate_file w cfg p = Inr True" and "parse_with_pdfplumber w cfg p = Inl e1"
  shows "PDF_parse w cfg p = parse_with_pypdf w p
       \<and> (\<forall>e2. parse_with_pypdf w p = Inl e2 \<longrightarrow> PDF_parse w cfg p = Inl e2)"
  using assms by (auto simp: PDF_parse_def try_except_def split: sum.splits)

theorem pdf_parse_fallback_then_propagate_witness:
  "PDF_parse demo_world ParserConfig_default ''/w/g.pdf''
     = Inl (Exn OtherException ''EOF marker not found'')"
proof -
  have v: "validate_file demo_world ParserConfig_default ''/w/g.pdf'' = Inr True"
    by code_simp
  have a: "parse_with_pdfplumber demo_world ParserConfig_default ''/w/g.pdf''
             = Inl (Exn OtherException ''No /Root object'')"
    by code_simp
  have b: "parse_with_pypdf demo_world ''/w/g.pdf'' = Inl (Exn OtherException ''EOF marker not found'')"
    by code_simp
  from pdf_parse_fallback_then_propagate [OF v a] b show ?thesis
    by simp
qed

lemma pdfplumber_pages_text_only:
  "pdfplumber_pages cfg n (map text_only_page texts) all_text all_tables
     = Inr (all_text @ page_sections n texts, all_tables)"
  by (induction texts arbitrary: n all_text) (auto simp: text_only_page_def page_sections_def)

text \<open>The page markers of a document are those of the pages with text, in ascending page
  order, each directly before the text of its page.\<close>

lemma page_sections_markers:
  "page_sections first texts =
     concat (map (\<lambda>(page_num, txt). [page_marker page_num, txt])
                 (filter (\<lambda>(page_num, txt). txt \<noteq> []) (enumerate first texts)))"
  unfolding page_sections_def
  by (induction texts arbitrary: first) auto

text \<open>
  Claim C8. For a valid PDF file that pdfplumber opens, whose pages yield their text and no
  table, \<open>PDFParser.parse\<close> returns a document with no tables, whose text joins, for every
  page with text and in ascending page order, the marker of the page directly followed by
  the text of the page (pages without text are skipped), and whose metadata is the total
  number of pages under the key \<open>pages\<close>.
\<close>

theorem pdf_text_only_pages:
  assumes "validate_file w cfg p = Inr True" and "pdfplumber_open w p = Inr (map text_only_page texts)"
  shows "PDF_parse w cfg p =
           Inr \<lparr>file_path = p, document_type = PDF,
                doc_text = str_join [newline] (page_sections 1 texts),
                tables = [], metadata = [(''pages'', MInt (int (length texts)))],
                raw_content = None\<rparr>"
  using assms
  by (simp add: PDF_parse_def parse_with_pdfplumber_def pdfplumber_pages_text_only try_except_def
      create_parsed_document_def dict_set_def)

theorem pdf_text_only_pages_witness:
  "PDF_parse demo_world ParserConfig_default ''/w/b.pdf'' =
     Inr \<lparr>file_path = ''/w/b.pdf'', document_type = PDF,
          doc_text = newline # ''--- Page 1 ---'' @ [newline, newline] @ ''Intro'' @ [newline, newline]
                     @ ''--- Page 3 ---'' @ [newline, newline] @ ''Segments'',
          tables = [], metadata = [(''pages'', MInt 3)], raw_content = None\<rparr>"
proof -
  have v: "validate_file demo_world ParserConfig_default ''/w/b.pdf'' = Inr True"
    by code_simp
  have o: "pdfplumber_open demo_world ''/w/b.pdf'' = Inr (map text_only_page [''Intro'', [], ''Segments''])"
    by (simp add: demo_world_def)
  have s: "str_join [newline] (page_sections 1 [''Intro'', [], ''Segments''])
         = newline # ''--- Page 1 ---'' @ [newline, newline] @ ''Intro'' @ [newline, newline]
                     @ ''--- Page 3 ---'' @ [newline, newline] @ ''Segments''"
    by code_simp
  from pdf_text_only_pages [OF v o] show ?thesis
    unfolding s by simp
qed

text \<open>The same document text and page count come out of the pypdf fallback.\<close>

lemma pypdf_pages_texts:
  "pypdf_pages n (map Inr texts) all_text = Inr (all_text @ page_sections n texts)"
  by (induction texts arbitrary: n all_text) (auto simp: page_sections_def)

lemma pypdf_metadata_pages:
  "map_of (pypdf_metadata reader) ''pages'' = Some (MInt (int (length (reader_pages reader))))"
  by (simp add: pypdf_metadata_def Let_def dict_update_def dict_set_def split: option.splits)

lemma pdf_text_only_pages_fallback:
  assumes "validate_file w cfg p = Inr True" and "parse_with_pdfplumber w cfg p = Inl e"
    and "PdfReader w p = Inr reader" and "reader_pages reader = map Inr texts"
  shows "PDF_parse w cfg p =
           Inr \<lparr>file_path = p, document_type = PDF,
                doc_text = str_join [newline] (page_sections 1 texts),
                tables = [], metadata = pypdf_metadata reader, raw_content = None\<rparr>"
  using assms
  by (simp add: PDF_parse_def parse_with_pypdf_def pypdf_pages_texts try_except_def
      create_parsed_document_def)

section \<open>The text parser\<close>

text \<open>What \<open>splitlines\<close> counts: a text without a line end is one line (none when empty);
  a line end other than \<open>\r\<close> closes the line before it; \<open>\r\n\<close> closes it once; \<open>\r\<close>
  closes it when no \<open>\n\<close> follows.\<close>

lemma splitlines_from_line:
  assumes "\<forall>c \<in> set line. \<not> is_linebreak c"
  shows "splitlines_from cur (line @ rest) = splitlines_from (rev line @ cur) rest"
  using assms
proof (induction line arbitrary: cur)
  case Nil
  then show ?case by simp
next
  case (Cons c line)
  have c: "\<not> is_linebreak c" using Cons.prems by simp
  then have cr: "c \<noteq> CHR 0x0D" by (auto simp: is_linebreak_def)
  have step: "splitlines_from cur (c # line @ rest) = splitlines_from (c # cur) (line @ rest)"
  proof (cases "line @ rest")
    case Nil
    then show ?thesis using c by simp
  next
    case (Cons d ds)
    then show ?thesis using c cr by simp
  qed
  from Cons.IH [of "c # cur"] Cons.prems step show ?case by simp
qed

lemma splitlines_empty: "splitlines [] = []"
  by (simp add: splitlines_def)

lemma splitlines_one_line:
  assumes "\<forall>c \<in> set line. \<not> is_linebreak c" and "line \<noteq> []"
  shows "splitlines line = [line]"
  using splitlines_from_line [OF assms(1), of "[]" "[]"] assms(2)
  by (simp add: splitlines_def)

lemma splitlines_line_end:
  assumes "\<forall>c \<in> set line. \<not> is_linebreak c" and "is_linebreak c" and "c \<noteq> CHR 0x0D"
  shows "splitlines (line @ c # rest) = line # splitlines rest"
proof -
  have "splitlines_from (rev line) (c # rest) = line # splitlines_from [] rest"
    using assms(2, 3) by (cases rest) simp_all
  with splitlines_from_line [OF assms(1), of "[]" "c # rest"] show ?thesis
    by (simp add: splitlines_def)
qed

lemma splitlines_crlf:
  assumes "\<forall>c \<in> set line. \<not> is_linebreak c"
  shows "splitlines (line @ CHR 0x0D # CHR 0x0A # rest) = line # splitlines rest"
  using splitlines_from_line [OF assms, of "[]" "CHR 0x0D # CHR 0x0A # rest"]
  by (simp add: splitlines_def)

lemma splitlines_cr:
  assumes "\<forall>c \<in> set line. \<not> is_linebreak c" and "take 1 rest \<noteq> [CHR 0x0A]"
  shows "splitlines (line @ CHR 0x0D # rest) = line # splitlines rest"
proof -
  have cr: "is_linebreak (CHR 0x0D)" by (simp add: is_linebreak_def)
  have "splitlines_from (rev line) (CHR 0x0D # rest) = line # splitlines_from [] rest"
    using assms(2) cr by (cases rest) simp_all
  with splitlines_from_line [OF assms(1), of "[]" "CHR 0x0D # rest"] show ?thesis
    by (simp add: splitlines_def)
qed




end
